theory Spec2Isabelle
  imports Complex_Main "HOL-Library.Sublist"
begin

section \<open>Strings\<close>

text \<open>
  A JavaScript string is modelled as a \<^typ>\<open>string\<close>, one \<^typ>\<open>char\<close> per code unit.
  The case conversions act on the ASCII letters and leave every other code unit as it is,
  which is what \<^verbatim>\<open>toLowerCase\<close> and \<^verbatim>\<open>toUpperCase\<close> do on ASCII text.
\<close>

definition upperLetters :: string where
  "upperLetters = ''ABCDEFGHIJKLMNOPQRSTUVWXYZ''"

definition lowerLetters :: string where
  "lowerLetters = ''abcdefghijklmnopqrstuvwxyz''"

definition lowerChar :: "char \<Rightarrow> char" where
  "lowerChar c = (case map_of (zip upperLetters lowerLetters) c of None \<Rightarrow> c | Some l \<Rightarrow> l)"

definition upperChar :: "char \<Rightarrow> char" where
  "upperChar c = (case map_of (zip lowerLetters upperLetters) c of None \<Rightarrow> c | Some u \<Rightarrow> u)"

definition toLowerCase :: "string \<Rightarrow> string" where
  "toLowerCase s = map lowerChar s"

definition toUpperCase :: "string \<Rightarrow> string" where
  "toUpperCase s = map upperChar s"

text \<open>\<^verbatim>\<open>s.includes(t)\<close>: \<open>t\<close> occurs in \<open>s\<close> as a contiguous run.\<close>

definition strIncludes :: "string \<Rightarrow> string \<Rightarrow> bool" where
  "strIncludes s t = sublist t s"

text \<open>
  \<^verbatim>\<open>s.split(sep)\<close> for a non-empty separator: the pieces between the occurrences of
  \<open>sep\<close>, read from the left; a string without the separator is its own only piece.
  \<open>splitFrom sep acc s\<close> carries the piece read so far, reversed.
\<close>

fun splitFrom :: "string \<Rightarrow> string \<Rightarrow> string \<Rightarrow> string list" where
  "splitFrom sep acc [] = [rev acc]"
| "splitFrom sep acc (c # cs) =
     (if sep \<noteq> [] \<and> prefix sep (c # cs)
      then rev acc # splitFrom sep [] (drop (length sep) (c # cs))
      else splitFrom sep (c # acc) cs)"

definition jsSplit :: "string \<Rightarrow> string \<Rightarrow> string list" where
  "jsSplit s sep = splitFrom sep [] s"

text \<open>\<^verbatim>\<open>s.charAt(0)\<close> is the empty string on the empty string; \<^verbatim>\<open>s.slice(1)\<close> drops one code unit.\<close>

definition charAt0 :: "string \<Rightarrow> string" where
  "charAt0 s = take 1 s"

definition slice1 :: "string \<Rightarrow> string" where
  "slice1 s = drop 1 s"

section \<open>Model normalizer: provider extraction\<close>

text \<open>The table \<^verbatim>\<open>PROVIDER_MAP\<close> of \<^verbatim>\<open>openRouterModels.ts\<close>, in source order.\<close>

definition PROVIDER_MAP :: "(string \<times> string) list" where
  "PROVIDER_MAP =
    [(''openai'', ''OpenAI''),
     (''anthropic'', ''Anthropic''),
     (''google'', ''Google''),
     (''meta-llama'', ''Meta''),
     (''mistralai'', ''Mistral''),
     (''cohere'', ''Cohere''),
     (''deepseek'', ''DeepSeek''),
     (''perplexity'', ''Perplexity''),
     (''x-ai'', ''xAI''),
     (''amazon'', ''Amazon''),
     (''microsoft'', ''Microsoft''),
     (''nvidia'', ''NVIDIA''),
     (''qwen'', ''Qwen''),
     (''moonshotai'', ''Moonshot AI''),
     (''minimax'', ''MiniMax''),
     (''z-ai'', ''Z-AI'')]"

text \<open>
  What \<^verbatim>\<open>extractProvider\<close> can hand back. \<^verbatim>\<open>PROVIDER_MAP\<close> is an object literal, so
  \<^verbatim>\<open>PROVIDER_MAP[slug]\<close> also finds what the object inherits from \<^verbatim>\<open>Object.prototype\<close>.
  Of the inherited property names only \<^verbatim>\<open>constructor\<close> and \<^verbatim>\<open>__proto__\<close> are unchanged by
  \<^verbatim>\<open>toLowerCase\<close>, so only they can be hit by a lower-cased slug: the first is the
  function \<^verbatim>\<open>Object\<close>, the second the prototype object. Both are truthy, not strings.
\<close>

datatype provider_value = ProviderString string | ObjectConstructor | ObjectPrototype

definition providerMapGet :: "string \<Rightarrow> provider_value option" where
  "providerMapGet key =
     (case map_of PROVIDER_MAP key of
        Some name \<Rightarrow> Some (ProviderString name)
      | None \<Rightarrow>
          if key = ''constructor'' then Some ObjectConstructor
          else if key = ''__proto__'' then Some ObjectPrototype
          else None)"

text \<open>Truthiness, for the left operand of \<^verbatim>\<open>||\<close>: the empty string is falsy.\<close>

fun truthy :: "provider_value \<Rightarrow> bool" where
  "truthy (ProviderString s) = (s \<noteq> [])"
| "truthy ObjectConstructor = True"
| "truthy ObjectPrototype = True"

definition extractProvider :: "string \<Rightarrow> provider_value" where
  "extractProvider modelId =
     (let parts = jsSplit modelId ''/'' in
      if length parts < 2 then ProviderString ''Unknown''
      else
        let providerSlug = toLowerCase (hd parts) in
        (case providerMapGet providerSlug of
           Some v \<Rightarrow>
             if truthy v then v
             else ProviderString (toUpperCase (charAt0 providerSlug) @ slice1 providerSlug)
         | None \<Rightarrow> ProviderString (toUpperCase (charAt0 providerSlug) @ slice1 providerSlug)))"

section \<open>Capability classifier\<close>

text \<open>
  An optional argument is an \<^typ>\<open>'a option\<close>, \<open>None\<close> for \<^verbatim>\<open>undefined\<close>.
  \<open>inputPart\<close> is \<^verbatim>\<open>modality?.split('->')[0] || ''\<close> and \<open>outputPart\<close> is
  \<^verbatim>\<open>modality?.split('->')[1] || ''\<close>: a missing piece reads as the empty string.
\<close>

definition inputPart :: "string option \<Rightarrow> string" where
  "inputPart modality =
     (case modality of
        None \<Rightarrow> []
      | Some m \<Rightarrow> (case jsSplit m ''->'' of [] \<Rightarrow> [] | p # _ \<Rightarrow> p))"

definition outputPart :: "string option \<Rightarrow> string" where
  "outputPart modality =
     (case modality of
        None \<Rightarrow> []
      | Some m \<Rightarrow> (case jsSplit m ''->'' of _ # q # _ \<Rightarrow> q | _ \<Rightarrow> []))"

definition supportsVision :: "string option \<Rightarrow> bool" where
  "supportsVision modality = strIncludes (inputPart modality) ''image''"

definition supportsAudio :: "string option \<Rightarrow> bool" where
  "supportsAudio modality = strIncludes (inputPart modality) ''audio''"

definition supportsTools :: "string list option \<Rightarrow> bool" where
  "supportsTools supportedParams =
     (case supportedParams of None \<Rightarrow> False | Some ps \<Rightarrow> List.member ps ''tools'')"

definition imageGenKeywords :: "string list" where
  "imageGenKeywords =
    [''image'', ''flux'', ''dall-e'', ''dalle'', ''stable-diffusion'', ''sd-'', ''sdxl'',
     ''midjourney'', ''imagen'', ''ideogram'', ''playground'', ''kandinsky'',
     ''dreamshaper'', ''deliberate'', ''proteus'', ''juggernaut'']"

definition orEmpty :: "string option \<Rightarrow> string" where
  "orEmpty s = (case s of None \<Rightarrow> [] | Some t \<Rightarrow> t)"

definition supportsImageGeneration ::
  "string option \<Rightarrow> string option \<Rightarrow> string option \<Rightarrow> string list option \<Rightarrow> bool" where
  "supportsImageGeneration modality modelId mName capabilities =
     (if (case capabilities of
            None \<Rightarrow> False
          | Some caps \<Rightarrow>
              0 < length caps \<and>
              list_ex (\<lambda>c. strIncludes c ''image-generation'' \<or> strIncludes c ''image'' \<or> c = ''images'')
                (map toLowerCase caps))
      then True
      else if strIncludes (outputPart modality) ''image'' then True
      else
        let lowerName = toLowerCase (orEmpty mName);
            lowerId = toLowerCase (orEmpty modelId);
            combined = lowerName @ '' '' @ lowerId
        in list_ex (\<lambda>kw. strIncludes combined kw) imageGenKeywords)"

definition supportsFileInput :: "string option \<Rightarrow> string list option \<Rightarrow> bool" where
  "supportsFileInput modality supportedParams =
     (supportsVision modality \<or>
      (case supportedParams of None \<Rightarrow> False | Some ps \<Rightarrow> List.member ps ''file''))"

definition searchKeywords :: "string list" where
  "searchKeywords =
    [''sonar'', ''perplexity'', ''search'', ''web-search'', ''web search'', ''retrieval'', ''browse'']"

definition supportsSearchCapability ::
  "string option \<Rightarrow> string option \<Rightarrow> string list option \<Rightarrow> string list option \<Rightarrow> bool" where
  "supportsSearchCapability modelId mName capabilities supportedParams =
     (let capValues = map toLowerCase (case capabilities of None \<Rightarrow> [] | Some cs \<Rightarrow> cs);
          paramValues = map toLowerCase (case supportedParams of None \<Rightarrow> [] | Some ps \<Rightarrow> ps)
      in
      if list_ex (\<lambda>c. strIncludes c ''search'' \<or> strIncludes c ''web'' \<or>
                        strIncludes c ''retrieval'' \<or> strIncludes c ''browse'') capValues
      then True
      else if list_ex (\<lambda>p. strIncludes p ''search'' \<or> strIncludes p ''web'' \<or>
                             strIncludes p ''browse'' \<or> strIncludes p ''retrieval'') paramValues
      then True
      else
        let combined = toLowerCase (orEmpty modelId @ '' '' @ orEmpty mName)
        in list_ex (\<lambda>kw. strIncludes combined kw) searchKeywords)"

section \<open>Benchmark parser\<close>

text \<open>
  The parser takes any JavaScript value. The values are modelled with the numbers left
  abstract (the type variable \<open>'n\<close>); an object is the list of its own properties (the
  first entry of a key is the property), and a property that is not in the list reads as
  \<^verbatim>\<open>undefined\<close>.
\<close>

datatype 'n json =
    JUndefined
  | JNull
  | JBool bool
  | JNum 'n
  | JStr string
  | JArr "'n json list"
  | JObj "(string \<times> 'n json) list"

record 'n ModelBenchmark =
  modelName :: string
  creator :: string
  intelligenceIndex :: "'n option"
  codingIndex :: "'n option"
  mathIndex :: "'n option"
  outputSpeed :: "'n option"
  latency :: "'n option"
  priceInput :: "'n option"
  priceOutput :: "'n option"


fun isString :: "'n json \<Rightarrow> bool" where
  "isString (JStr s) = True"
| "isString _ = False"

text \<open>
  Reading a property of \<^verbatim>\<open>null\<close> or \<^verbatim>\<open>undefined\<close> throws a \<^verbatim>\<open>TypeError\<close>; on a
  number, a boolean, a string or an array the keys the parser asks for are not there, and
  the read gives \<^verbatim>\<open>undefined\<close>.
\<close>

datatype error = TypeError

definition objGet :: "(string \<times> 'n json) list \<Rightarrow> string \<Rightarrow> 'n json" where
  "objGet kvs key = (case map_of kvs key of None \<Rightarrow> JUndefined | Some v \<Rightarrow> v)"

fun getProp :: "'n json \<Rightarrow> string \<Rightarrow> error + 'n json" where
  "getProp JUndefined key = Inl TypeError"
| "getProp JNull key = Inl TypeError"
| "getProp (JObj kvs) key = Inr (objGet kvs key)"
| "getProp (JBool b) key = Inr JUndefined"
| "getProp (JNum n) key = Inr JUndefined"
| "getProp (JStr s) key = Inr JUndefined"
| "getProp (JArr xs) key = Inr JUndefined"

definition bindE :: "error + 'a \<Rightarrow> ('a \<Rightarrow> error + 'b) \<Rightarrow> error + 'b" where
  "bindE m f = (case m of Inl e \<Rightarrow> Inl e | Inr x \<Rightarrow> f x)"

fun getValue :: "'n json \<Rightarrow> string list \<Rightarrow> error + 'n json" where
  "getValue item [] = Inr JUndefined"
| "getValue item (key # keys) =
     bindE (getProp item key)
       (\<lambda>v. if v \<noteq> JUndefined then Inr v else getValue item keys)"

text \<open>
  \<^verbatim>\<open>parseFloat\<close> is the language's own; it is the parameter \<open>pf\<close>, with \<open>None\<close> for a
  result that is \<^verbatim>\<open>NaN\<close>.
\<close>

definition getNumber :: "(string \<Rightarrow> 'n option) \<Rightarrow> 'n json \<Rightarrow> string list \<Rightarrow> error + 'n option" where
  "getNumber pf item keys =
     bindE (getValue item keys)
       (\<lambda>val. case val of JNum n \<Rightarrow> Inr (Some n) | JStr s \<Rightarrow> Inr (pf s) | _ \<Rightarrow> Inr None)"

definition getString :: "'n json \<Rightarrow> string list \<Rightarrow> error + string" where
  "getString item keys =
     bindE (getValue item keys)
       (\<lambda>val. case val of JStr s \<Rightarrow> Inr s | _ \<Rightarrow> Inr [])"

text \<open>
  The loop of \<^verbatim>\<open>getNestedString\<close> and \<^verbatim>\<open>getNestedNumber\<close>: \<open>None\<close> is their early
  return. Only an object passes the guard with one of the path's parts in it (the parts
  the parser uses are no property of an array).
\<close>

fun walkPath :: "'n json \<Rightarrow> string list \<Rightarrow> 'n json option" where
  "walkPath current [] = Some current"
| "walkPath current (part # parts) =
     (case current of
        JObj kvs \<Rightarrow> (case map_of kvs part of Some v \<Rightarrow> walkPath v parts | None \<Rightarrow> None)
      | _ \<Rightarrow> None)"

definition getNestedString :: "'n json \<Rightarrow> string \<Rightarrow> string" where
  "getNestedString item path =
     (case walkPath item (jsSplit path ''.'') of Some (JStr s) \<Rightarrow> s | _ \<Rightarrow> [])"

definition getNestedNumber :: "(string \<Rightarrow> 'n option) \<Rightarrow> 'n json \<Rightarrow> string \<Rightarrow> 'n option" where
  "getNestedNumber pf item path =
     (case walkPath item (jsSplit path ''.'') of
        Some (JNum n) \<Rightarrow> Some n
      | Some (JStr s) \<Rightarrow> pf s
      | _ \<Rightarrow> None)"

definition extractModelsArray :: "'n json \<Rightarrow> 'n json list" where
  "extractModelsArray raw =
     (case raw of
        JArr xs \<Rightarrow> xs
      | JObj obj \<Rightarrow>
          (case objGet obj ''data'' of
             JArr xs \<Rightarrow> xs
           | _ \<Rightarrow>
             (case objGet obj ''models'' of
                JArr xs \<Rightarrow> xs
              | _ \<Rightarrow> (case objGet obj ''results'' of JArr xs \<Rightarrow> xs | _ \<Rightarrow> [])))
      | _ \<Rightarrow> [])"

text \<open>\<^verbatim>\<open>a ?? b\<close> on an optional number, where \<open>b\<close> may throw.\<close>

definition orElse :: "'n option \<Rightarrow> (error + 'n option) \<Rightarrow> error + 'n option" where
  "orElse a b = (case a of Some x \<Rightarrow> Inr (Some x) | None \<Rightarrow> b)"

text \<open>The callback of \<^verbatim>\<open>models.map\<close>: \<open>Inr None\<close> is its \<^verbatim>\<open>null\<close>.\<close>

definition parseItem :: "(string \<Rightarrow> 'n option) \<Rightarrow> 'n json \<Rightarrow> error + 'n ModelBenchmark option" where
  "parseItem pf item =
     bindE (getString item [''model_name'', ''name'', ''model'', ''modelName'', ''display_name''])
     (\<lambda>mName. if mName = [] then Inr None else
     bindE (let nested = getNestedString item ''model_creator.name''
            in if nested \<noteq> [] then Inr nested
               else getString item [''creator'', ''provider'', ''organization''])
     (\<lambda>mCreator. if mCreator = [] then Inr None else
     bindE (orElse (getNestedNumber pf item ''evaluations.artificial_analysis_intelligence_index'')
              (getNumber pf item [''intelligence_index'', ''intelligenceIndex'']))
     (\<lambda>ii.
     bindE (orElse (getNestedNumber pf item ''evaluations.artificial_analysis_coding_index'')
              (getNumber pf item [''coding_index'', ''codingIndex'']))
     (\<lambda>ci.
     bindE (orElse (getNestedNumber pf item ''evaluations.artificial_analysis_math_index'')
              (getNumber pf item [''math_index'', ''mathIndex'']))
     (\<lambda>mi.
     bindE (getNumber pf item [''median_output_tokens_per_second'', ''output_speed'', ''outputSpeed''])
     (\<lambda>os.
     bindE (getNumber pf item [''median_time_to_first_token_seconds'', ''latency'', ''ttft''])
     (\<lambda>lat.
     bindE (getNumber pf item [''price_input'', ''priceInput'', ''input_price''])
     (\<lambda>pin.
     bindE (getNumber pf item [''price_output'', ''priceOutput'', ''output_price''])
     (\<lambda>pout.
       Inr (Some \<lparr> modelName = mName, creator = mCreator, intelligenceIndex = ii,
                   codingIndex = ci, mathIndex = mi, outputSpeed = os, latency = lat,
                   priceInput = pin, priceOutput = pout \<rparr>))))))))))"

text \<open>\<^verbatim>\<open>models.map(f)\<close> with a callback that may throw: the first throw ends the call.\<close>

fun mapE :: "('a \<Rightarrow> error + 'b) \<Rightarrow> 'a list \<Rightarrow> error + 'b list" where
  "mapE f [] = Inr []"
| "mapE f (x # xs) = bindE (f x) (\<lambda>y. bindE (mapE f xs) (\<lambda>ys. Inr (y # ys)))"

text \<open>The filter that drops the \<^verbatim>\<open>null\<close>s.\<close>

fun nonNull :: "'a option list \<Rightarrow> 'a list" where
  "nonNull [] = []"
| "nonNull (None # xs) = nonNull xs"
| "nonNull (Some x # xs) = x # nonNull xs"

definition parseBenchmarks :: "(string \<Rightarrow> 'n option) \<Rightarrow> 'n json \<Rightarrow> error + 'n ModelBenchmark list" where
  "parseBenchmarks pf raw =
     (let models = extractModelsArray raw in
      if length models = 0 then Inr []
      else bindE (mapE (parseItem pf) models) (\<lambda>rs. Inr (nonNull rs)))"

section \<open>Benchmark matcher\<close>

text \<open>
  \<^verbatim>\<open>normalizeForMatch\<close>: lower-case, put a space for every code unit outside
  \<^verbatim>\<open>[a-z0-9\s]\<close>, make every run of white space one space, trim.
\<close>

definition digitChars :: string where
  "digitChars = ''0123456789''"

definition isWhitespace :: "char \<Rightarrow> bool" where
  "isWhitespace c = List.member [CHR '' '', CHR 0x09, CHR 0x0A, CHR 0x0B, CHR 0x0C, CHR 0x0D] c"

definition keptByMatch :: "char \<Rightarrow> bool" where
  "keptByMatch c = (List.member lowerLetters c \<or> List.member digitChars c \<or> isWhitespace c)"

function collapseWhitespace :: "string \<Rightarrow> string" where
  "collapseWhitespace [] = []"
| "collapseWhitespace (c # cs) =
     (if isWhitespace c then CHR '' '' # collapseWhitespace (dropWhile isWhitespace cs)
      else c # collapseWhitespace cs)"
  by pat_completeness auto
termination
  by (relation "measure length") (auto simp: less_Suc_eq_le length_dropWhile_le)

definition trim :: "string \<Rightarrow> string" where
  "trim s = rev (dropWhile isWhitespace (rev (dropWhile isWhitespace s)))"

definition normalizeForMatch :: "string \<Rightarrow> string" where
  "normalizeForMatch str =
     trim (collapseWhitespace
       (map (\<lambda>c. if keptByMatch c then c else CHR '' '') (toLowerCase str)))"

definition stopWords :: "string list" where
  "stopWords = [''ai'', ''model'', ''v1'', ''free'', ''pro'', ''plus'', ''chat'', ''instruct'', ''preview'']"

definition extractModelTokens :: "string \<Rightarrow> string list" where
  "extractModelTokens name =
     filter (\<lambda>token. 1 < length token \<and> \<not> List.member stopWords token)
       (jsSplit (normalizeForMatch name) '' '')"

text \<open>The inner loop of \<^verbatim>\<open>calculateSimilarity\<close>, with its \<^verbatim>\<open>break\<close>, and the outer one.\<close>

fun tokenMatches :: "string \<Rightarrow> string list \<Rightarrow> bool" where
  "tokenMatches t1 [] = False"
| "tokenMatches t1 (t2 # rest) =
     (if t1 = t2 \<or> strIncludes t1 t2 \<or> strIncludes t2 t1 then True
      else tokenMatches t1 rest)"

fun countMatches :: "string list \<Rightarrow> string list \<Rightarrow> nat" where
  "countMatches [] tokens2 = 0"
| "countMatches (t1 # rest) tokens2 =
     (if tokenMatches t1 tokens2 then 1 else 0) + countMatches rest tokens2"

text \<open>
  Scores are modelled as the exact quotients and products (\<^typ>\<open>rat\<close>); the double the
  code holds is the rounding of that value. \<open>1.2\<close> is \<open>6/5\<close>.
\<close>

definition calculateSimilarity :: "string \<Rightarrow> string \<Rightarrow> rat" where
  "calculateSimilarity name1 name2 =
     (let tokens1 = extractModelTokens name1;
          tokens2 = extractModelTokens name2
      in if length tokens1 = 0 \<or> length tokens2 = 0 then 0
         else
           let matches = countMatches tokens1 tokens2;
               maxTokens = max (length tokens1) (length tokens2)
           in of_nat matches / of_nat maxTokens)"




text \<open>The body of the loop up to the comparison: the score of one record.\<close>

definition benchmarkScore :: "string \<Rightarrow> string \<Rightarrow> 'n ModelBenchmark \<Rightarrow> rat" where
  "benchmarkScore provider mName benchmark =
     (let creatorLower = toLowerCase (creator benchmark);
          creatorMatch = (strIncludes creatorLower provider \<or> strIncludes provider creatorLower);
          nameSimilarity = calculateSimilarity mName (modelName benchmark)
      in if creatorMatch then nameSimilarity * (6 / 5) else nameSimilarity)"



section \<open>Facts about the string operations\<close>

text \<open>The defining equations that evaluate the string operations on a literal.\<close>

lemmas str_ev = toLowerCase_def toUpperCase_def lowerChar_def upperChar_def upperLetters_def lowerLetters_def
  strIncludes_def sublist_code jsSplit_def charAt0_def slice1_def

lemma splitFrom_nonempty: "splitFrom sep acc s \<noteq> []"
  by (induction sep acc s rule: splitFrom.induct) auto

lemma splitFrom_char_absent:
  "c \<notin> set s \<Longrightarrow> splitFrom [c] acc s = [rev acc @ s]"
  by (induction s arbitrary: acc) auto

lemma splitFrom_char_first:
  "c \<notin> set p \<Longrightarrow> splitFrom [c] acc (p @ c # rest) = (rev acc @ p) # splitFrom [c] [] rest"
  by (induction p arbitrary: acc) auto

lemma jsSplit_char_absent: "c \<notin> set s \<Longrightarrow> jsSplit s [c] = [s]"
  by (simp add: jsSplit_def splitFrom_char_absent)

lemma jsSplit_char_present:
  assumes "c \<in> set s"
  shows "\<exists>rest. jsSplit s [c] = takeWhile (\<lambda>x. x \<noteq> c) s # splitFrom [c] [] rest"
proof -
  from assms obtain p rest where s: "s = p @ c # rest" and p: "c \<notin> set p"
    by (auto dest: split_list_first)
  from p have "takeWhile (\<lambda>x. x \<noteq> c) s = p"
    unfolding s by (auto simp: takeWhile_tail)
  moreover have "jsSplit s [c] = p # splitFrom [c] [] rest"
    unfolding s jsSplit_def using splitFrom_char_first [OF p, of "[]" rest] by simp
  ultimately show ?thesis by blast
qed

lemma hd_jsSplit_char: "hd (jsSplit s [c]) = takeWhile (\<lambda>x. x \<noteq> c) s"
proof (cases "c \<in> set s")
  case True
  then show ?thesis using jsSplit_char_present [OF True] by auto
next
  case False
  then have "takeWhile (\<lambda>x. x \<noteq> c) s = s" by (induction s) auto
  then show ?thesis unfolding jsSplit_char_absent [OF False] by (simp only: list.sel)
qed

lemma length_jsSplit_char: "length (jsSplit s [c]) < 2 \<longleftrightarrow> c \<notin> set s"
proof (cases "c \<in> set s")
  case True
  then obtain rest where "jsSplit s [c] = takeWhile (\<lambda>x. x \<noteq> c) s # splitFrom [c] [] rest"
    using jsSplit_char_present by blast
  moreover have "splitFrom [c] [] rest \<noteq> []" by (rule splitFrom_nonempty)
  ultimately show ?thesis using True by (cases "splitFrom [c] [] rest") auto
next
  case False
  then show ?thesis by (simp add: jsSplit_char_absent)
qed

lemma lowerChar_slash: "lowerChar c = CHR ''/'' \<longleftrightarrow> c = CHR ''/''"
  by (simp add: lowerChar_def upperLetters_def lowerLetters_def)

lemma slash_lowerChar: "CHR ''/'' = lowerChar c \<longleftrightarrow> c = CHR ''/''"
  using lowerChar_slash [of c] by auto

lemma slash_toLowerCase: "CHR ''/'' \<in> set (toLowerCase s) \<longleftrightarrow> CHR ''/'' \<in> set s"
  by (induction s) (auto simp: toLowerCase_def slash_lowerChar)

lemma toLowerCase_takeWhile_slash:
  "toLowerCase (takeWhile (\<lambda>x. x \<noteq> CHR ''/'') s) = takeWhile (\<lambda>x. x \<noteq> CHR ''/'') (toLowerCase s)"
  by (induction s) (auto simp: toLowerCase_def lowerChar_slash)


section \<open>Provider extraction: the properties\<close>

lemma PROVIDER_MAP_distinct: "distinct (map fst PROVIDER_MAP)"
  by (simp add: PROVIDER_MAP_def)

lemma PROVIDER_MAP_entry:
  assumes "(slug, name) \<in> set PROVIDER_MAP"
  shows "map_of PROVIDER_MAP slug = Some name" and "name \<noteq> []"
proof -
  show "map_of PROVIDER_MAP slug = Some name"
    using assms PROVIDER_MAP_distinct by simp
  show "name \<noteq> []"
    using assms by (auto simp: PROVIDER_MAP_def)
qed

lemma extractProvider_no_slash:
  "CHR ''/'' \<notin> set modelId \<Longrightarrow> extractProvider modelId = ProviderString ''Unknown''"
  using length_jsSplit_char [of modelId "CHR ''/''"] by (simp add: extractProvider_def)

lemma extractProvider_slash:
  assumes "CHR ''/'' \<in> set modelId"
  shows "extractProvider modelId =
    (let providerSlug = toLowerCase (takeWhile (\<lambda>c. c \<noteq> CHR ''/'') modelId) in
     case providerMapGet providerSlug of
       Some v \<Rightarrow> if truthy v then v
                 else ProviderString (toUpperCase (take 1 providerSlug) @ drop 1 providerSlug)
     | None \<Rightarrow> ProviderString (toUpperCase (take 1 providerSlug) @ drop 1 providerSlug))"
proof -
  from assms have "\<not> length (jsSplit modelId ''/'') < 2"
    using length_jsSplit_char [of modelId "CHR ''/''"] by simp
  then show ?thesis
    unfolding extractProvider_def Let_def charAt0_def slice1_def hd_jsSplit_char by simp
qed

lemma toUpperCase_length: "length (toUpperCase s) = length s"
  by (simp add: toUpperCase_def)


text \<open>
  Claim C7. An id with no \<open>/\<close> gives \<open>Unknown\<close>. For an entry \<open>(slug, name)\<close> of the
  table and an id with a \<open>/\<close> whose text before the first \<open>/\<close> lower-cases to \<open>slug\<close>
  (any mix of upper and lower case), the result is exactly \<open>name\<close>.
\<close>

theorem extractProvider_unknown_and_table:
  "(CHR ''/'' \<notin> set modelId \<longrightarrow> extractProvider modelId = ProviderString ''Unknown'') \<and>
   ((slug, name) \<in> set PROVIDER_MAP \<and> CHR ''/'' \<in> set modelId \<and>
      toLowerCase (takeWhile (\<lambda>c. c \<noteq> CHR ''/'') modelId) = slug
    \<longrightarrow> extractProvider modelId = ProviderString name)"
proof (intro conjI impI)
  assume "CHR ''/'' \<notin> set modelId"
  then show "extractProvider modelId = ProviderString ''Unknown''"
    by (rule extractProvider_no_slash)
next
  assume h: "(slug, name) \<in> set PROVIDER_MAP \<and> CHR ''/'' \<in> set modelId \<and>
      toLowerCase (takeWhile (\<lambda>c. c \<noteq> CHR ''/'') modelId) = slug"
  then have m: "map_of PROVIDER_MAP slug = Some name" and n: "name \<noteq> []"
    using PROVIDER_MAP_entry by blast+
  from h have "CHR ''/'' \<in> set modelId" by simp
  from extractProvider_slash [OF this] h m n
  show "extractProvider modelId = ProviderString name"
    by (simp add: providerMapGet_def Let_def)
qed

text \<open>The theorem at \<open>gpt-4o\<close> (no slash) and at \<open>OpenAI/gpt-4o\<close> (a table slug, mixed case).\<close>

theorem extractProvider_unknown_and_table_witness:
  "CHR ''/'' \<notin> set ''gpt-4o'' \<and> extractProvider ''gpt-4o'' = ProviderString ''Unknown'' \<and>
   (''openai'', ''OpenAI'') \<in> set PROVIDER_MAP \<and> CHR ''/'' \<in> set ''OpenAI/gpt-4o'' \<and>
   toLowerCase (takeWhile (\<lambda>c. c \<noteq> CHR ''/'') ''OpenAI/gpt-4o'') = ''openai'' \<and>
   extractProvider ''OpenAI/gpt-4o'' = ProviderString ''OpenAI''"
proof -
  have a: "CHR ''/'' \<notin> set ''gpt-4o''" by simp
  have b: "(''openai'', ''OpenAI'') \<in> set PROVIDER_MAP \<and> CHR ''/'' \<in> set ''OpenAI/gpt-4o'' \<and>
      toLowerCase (takeWhile (\<lambda>c. c \<noteq> CHR ''/'') ''OpenAI/gpt-4o'') = ''openai''"
    by (simp add: PROVIDER_MAP_def str_ev)
  from extractProvider_unknown_and_table [of "''gpt-4o''"] a
  have c: "extractProvider ''gpt-4o'' = ProviderString ''Unknown''" by blast
  from extractProvider_unknown_and_table [of "''OpenAI/gpt-4o''" "''openai''" "''OpenAI''"] b
  have d: "extractProvider ''OpenAI/gpt-4o'' = ProviderString ''OpenAI''" by blast
  from a b c d show ?thesis by blast
qed




section \<open>The matcher's provider\<close>





section \<open>Capability classifier: the properties\<close>

lemma strIncludes_empty: "strIncludes [] (c # cs) = False"
  by (simp add: strIncludes_def)

text \<open>
  Claim C4, as the code has it. With only the id and the name given, vision, audio, tools
  and file input are false; image generation and search are decided by their keyword
  lists on the lower-cased name and id, and are false exactly when no keyword occurs.
\<close>

theorem capabilities_from_id_and_name:
  "supportsVision None = False \<and>
   supportsAudio None = False \<and>
   supportsTools None = False \<and>
   supportsFileInput None None = False \<and>
   supportsImageGeneration None (Some modelId) (Some mName) None =
     list_ex (\<lambda>kw. strIncludes (toLowerCase mName @ '' '' @ toLowerCase modelId) kw) imageGenKeywords \<and>
   supportsSearchCapability (Some modelId) (Some mName) None None =
     list_ex (\<lambda>kw. strIncludes (toLowerCase (modelId @ '' '' @ mName)) kw) searchKeywords"
proof (intro conjI)
  show "supportsVision None = False"
    by (simp add: supportsVision_def inputPart_def strIncludes_def)
  show "supportsAudio None = False"
    by (simp add: supportsAudio_def inputPart_def strIncludes_def)
  show "supportsTools None = False"
    by (simp add: supportsTools_def)
  show "supportsFileInput None None = False"
    by (simp add: supportsFileInput_def supportsVision_def inputPart_def strIncludes_def)
  show "supportsImageGeneration None (Some modelId) (Some mName) None =
     list_ex (\<lambda>kw. strIncludes (toLowerCase mName @ '' '' @ toLowerCase modelId) kw) imageGenKeywords"
    by (simp add: supportsImageGeneration_def outputPart_def orEmpty_def strIncludes_empty Let_def)
  show "supportsSearchCapability (Some modelId) (Some mName) None None =
     list_ex (\<lambda>kw. strIncludes (toLowerCase (modelId @ '' '' @ mName)) kw) searchKeywords"
    by (simp add: supportsSearchCapability_def orEmpty_def Let_def)
qed

text \<open>
  Where claim C4 fails as it is written: with only id and name, \<open>openai/dall-e-3\<close> supports
  image generation and \<open>perplexity/sonar-pro\<close> supports search.
\<close>

theorem capabilities_keyword_hits:
  "supportsImageGeneration None (Some ''openai/dall-e-3'') (Some ''DALL-E 3'') None \<and>
   supportsSearchCapability (Some ''perplexity/sonar-pro'') (Some ''Sonar Pro'') None None"
  by (simp add: supportsImageGeneration_def supportsSearchCapability_def outputPart_def
      orEmpty_def imageGenKeywords_def searchKeywords_def str_ev)

section \<open>Benchmark parser: the properties\<close>










lemma getValue_first_defined:
  "\<forall>k'\<in>set ks1. objGet obj k' = JUndefined \<Longrightarrow> objGet obj k \<noteq> JUndefined \<Longrightarrow>
   getValue (JObj obj) (ks1 @ k # ks2) = Inr (objGet obj k)"
  by (induction ks1) (simp_all add: bindE_def)

lemma mapE_append:
  "mapE f (xs @ ys) = bindE (mapE f xs) (\<lambda>as. bindE (mapE f ys) (\<lambda>bs. Inr (as @ bs)))"
  by (induction xs) (auto simp: bindE_def split: sum.splits)

lemma nonNull_append: "nonNull (as @ bs) = nonNull as @ nonNull bs"
  by (induction as rule: nonNull.induct) simp_all

lemma parseBenchmarks_drop_item:
  assumes "parseItem pf x = Inr None"
  shows "parseBenchmarks pf (JArr (pre @ x # post)) = parseBenchmarks pf (JArr (pre @ post))"
proof -
  have "mapE (parseItem pf) (x # post) = bindE (mapE (parseItem pf) post) (\<lambda>bs. Inr (None # bs))"
    using assms by (simp add: bindE_def)
  then show ?thesis
    by (cases "mapE (parseItem pf) pre"; cases "mapE (parseItem pf) post")
       (auto simp: parseBenchmarks_def extractModelsArray_def mapE_append bindE_def
          nonNull_append)
qed

text \<open>
  Claim C10. Among the aliases the first whose value is not \<^verbatim>\<open>undefined\<close> is the one read,
  whatever its type. When that value is no string, the string read is empty and the later
  aliases are not looked at; for the model name aliases the item is then dropped from the
  parse.
\<close>

theorem alias_first_defined_wins:
  assumes "\<forall>k'\<in>set ks1. objGet obj k' = JUndefined"
    and "objGet obj k \<noteq> JUndefined"
  shows "getValue (JObj obj) (ks1 @ k # ks2) = Inr (objGet obj k) \<and>
    (\<not> isString (objGet obj k) \<longrightarrow>
       getString (JObj obj) (ks1 @ k # ks2) = Inr [] \<and>
       (ks1 @ k # ks2 = [''model_name'', ''name'', ''model'', ''modelName'', ''display_name''] \<longrightarrow>
          parseItem pf (JObj obj) = Inr None \<and>
          parseBenchmarks pf (JArr (pre @ JObj obj # post)) = parseBenchmarks pf (JArr (pre @ post))))"
proof (intro conjI impI)
  show v: "getValue (JObj obj) (ks1 @ k # ks2) = Inr (objGet obj k)"
    using assms by (rule getValue_first_defined)
  assume ns: "\<not> isString (objGet obj k)"
  then show s: "getString (JObj obj) (ks1 @ k # ks2) = Inr []"
    unfolding getString_def v by (cases "objGet obj k") (simp_all add: bindE_def)
  assume al: "ks1 @ k # ks2 = [''model_name'', ''name'', ''model'', ''modelName'', ''display_name'']"
  show p: "parseItem pf (JObj obj) = Inr None"
    unfolding parseItem_def al [symmetric] s by (simp add: bindE_def)
  then show "parseBenchmarks pf (JArr (pre @ JObj obj # post)) = parseBenchmarks pf (JArr (pre @ post))"
    by (rule parseBenchmarks_drop_item)
qed

text \<open>
  The theorem at an item whose \<open>model_name\<close> is the number 7 and whose \<open>name\<close> is the
  string \<open>GPT-4o\<close>: the item is dropped.
\<close>

theorem alias_first_defined_wins_witness:
  "objGet [(''model_name'', JNum (7 :: rat)), (''name'', JStr ''GPT-4o''), (''creator'', JStr ''OpenAI'')]
      ''model_name'' = JNum 7 \<and>
   objGet [(''model_name'', JNum (7 :: rat)), (''name'', JStr ''GPT-4o''), (''creator'', JStr ''OpenAI'')]
      ''name'' = JStr ''GPT-4o'' \<and>
   getString (JObj [(''model_name'', JNum (7 :: rat)), (''name'', JStr ''GPT-4o''), (''creator'', JStr ''OpenAI'')])
      [''model_name'', ''name'', ''model'', ''modelName'', ''display_name''] = Inr [] \<and>
   parseBenchmarks (\<lambda>s. None)
      (JArr [JObj [(''model_name'', JNum (7 :: rat)), (''name'', JStr ''GPT-4o''), (''creator'', JStr ''OpenAI'')]])
      = Inr []"
proof -
  let ?obj = "[(''model_name'', JNum 7), (''name'', JStr ''GPT-4o''), (''creator'', JStr ''OpenAI'')]
      :: (string \<times> rat json) list"
  let ?pf = "\<lambda>s :: string. None :: rat option"
  have g: "objGet ?obj ''model_name'' = JNum 7" "objGet ?obj ''name'' = JStr ''GPT-4o''"
    by (simp_all add: objGet_def)
  have h1: "\<forall>k'\<in>set ([] :: string list). objGet ?obj k' = JUndefined" by simp
  have h2: "objGet ?obj ''model_name'' \<noteq> JUndefined" by (simp add: objGet_def)
  have h3: "\<not> isString (objGet ?obj ''model_name'')" by (simp add: objGet_def)
  have h4: "[] @ ''model_name'' # [''name'', ''model'', ''modelName'', ''display_name''] =
      [''model_name'', ''name'', ''model'', ''modelName'', ''display_name'']" by simp
  have e: "parseBenchmarks ?pf (JArr ([] @ [])) = Inr []"
    by (simp add: parseBenchmarks_def extractModelsArray_def)
  from alias_first_defined_wins [OF h1 h2, of "[''name'', ''model'', ''modelName'', ''display_name'']" ?pf "[]" "[]"] h3 h4
  have "getString (JObj ?obj) ([] @ ''model_name'' # [''name'', ''model'', ''modelName'', ''display_name'']) = Inr [] \<and>
      parseBenchmarks ?pf (JArr ([] @ JObj ?obj # [])) = parseBenchmarks ?pf (JArr ([] @ []))"
    by blast
  then have r: "getString (JObj ?obj) [''model_name'', ''name'', ''model'', ''modelName'', ''display_name''] = Inr []"
    and q: "parseBenchmarks ?pf (JArr [JObj ?obj]) = Inr []"
    unfolding e by (simp_all only: append_Nil)
  show ?thesis
    using g r q by - (intro conjI, assumption+)
qed


lemma parseItem_null: "parseItem pf JNull = Inl TypeError"
  by (simp add: parseItem_def getString_def bindE_def)

lemma parseItem_undefined: "parseItem pf JUndefined = Inl TypeError"
  by (simp add: parseItem_def getString_def bindE_def)

lemma mapE_throws:
  "(\<exists>e. mapE f xs = Inl e) \<longleftrightarrow> (\<exists>x\<in>set xs. \<exists>e. f x = Inl e)"
  by (induction xs) (auto simp: bindE_def split: sum.splits)

text \<open>
  Claim C5 at the input \<^verbatim>\<open>[null]\<close>, and at any list with a \<^verbatim>\<open>null\<close> in it: the first
  property read in \<^verbatim>\<open>getValue\<close> throws, and so does \<^verbatim>\<open>parseBenchmarks\<close>.
\<close>

theorem parseBenchmarks_null_item_throws:
  "parseBenchmarks pf (JArr [JNull]) = Inl TypeError \<and>
   parseBenchmarks pf (JArr (pre @ JNull # post)) = Inl TypeError"
proof -
  have "\<exists>e. mapE (parseItem pf) (pre @ JNull # post) = Inl e" for pre post
    unfolding mapE_throws using parseItem_null [of pf] by auto
  then have "mapE (parseItem pf) (pre @ JNull # post) = Inl TypeError" for pre post
    by (metis error.exhaust)
  then have g: "parseBenchmarks pf (JArr (pre @ JNull # post)) = Inl TypeError" for pre post
    by (simp add: parseBenchmarks_def extractModelsArray_def bindE_def)
  from g [of "[]" "[]"] g [of pre post] show ?thesis by simp
qed

section \<open>Benchmark matcher: the properties\<close>

lemma countMatches_le: "countMatches tokens1 tokens2 \<le> length tokens1"
  by (induction tokens1) simp_all

lemma ratio_le_one: "m \<le> n \<Longrightarrow> (of_nat m :: rat) / of_nat n \<le> 1"
  by (cases "n = 0") (simp_all add: divide_le_eq_1)

lemma calculateSimilarity_range:
  "0 \<le> calculateSimilarity name1 name2 \<and> calculateSimilarity name1 name2 \<le> 1"
proof -
  let ?t1 = "extractModelTokens name1" and ?t2 = "extractModelTokens name2"
  have "countMatches ?t1 ?t2 \<le> max (length ?t1) (length ?t2)"
    using countMatches_le [of ?t1 ?t2] by simp
  then have "(of_nat (countMatches ?t1 ?t2) :: rat) / of_nat (max (length ?t1) (length ?t2)) \<le> 1"
    by (rule ratio_le_one)
  then show ?thesis
    by (simp add: calculateSimilarity_def Let_def)
qed

lemma benchmarkScore_range:
  "0 \<le> benchmarkScore provider mName benchmark \<and> benchmarkScore provider mName benchmark \<le> 6 / 5"
  using calculateSimilarity_range [of mName "modelName benchmark"]
  by (auto simp: benchmarkScore_def Let_def)

text \<open>
  Claim C9. Each token of the first name is counted at most once, so the count of matches
  is at most the number of tokens of the first name, hence at most the larger of the two
  token counts; the similarity is between 0 and 1; the score of a record, with or without
  the creator boost, is between 0 and \<open>6/5\<close> (1.2).
\<close>

theorem similarity_and_score_bounds:
  "countMatches tokens1 tokens2 \<le> length tokens1 \<and>
   countMatches tokens1 tokens2 \<le> max (length tokens1) (length tokens2) \<and>
   0 \<le> calculateSimilarity name1 name2 \<and> calculateSimilarity name1 name2 \<le> 1 \<and>
   0 \<le> benchmarkScore provider mName benchmark \<and>
   benchmarkScore provider mName benchmark \<le> 6 / 5"
  using countMatches_le [of tokens1 tokens2] calculateSimilarity_range [of name1 name2]
    benchmarkScore_range [of provider mName benchmark]
  by simp







section \<open>Benchmark parser: when it throws and what it returns\<close>

lemma getValue_total:
  "item \<noteq> JNull \<Longrightarrow> item \<noteq> JUndefined \<Longrightarrow> \<exists>v. getValue item keys = Inr v"
  by (induction keys) (cases item; simp add: bindE_def)+

lemma getString_total:
  assumes "item \<noteq> JNull" "item \<noteq> JUndefined"
  shows "\<exists>s. getString item keys = Inr s"
proof -
  from getValue_total [OF assms] obtain v where "getValue item keys = Inr v" by blast
  then show ?thesis by (cases v) (simp_all add: getString_def bindE_def)
qed

lemma getNumber_total:
  assumes "item \<noteq> JNull" "item \<noteq> JUndefined"
  shows "\<exists>n. getNumber pf item keys = Inr n"
proof -
  from getValue_total [OF assms] obtain v where "getValue item keys = Inr v" by blast
  then show ?thesis by (cases v) (simp_all add: getNumber_def bindE_def)
qed

lemma orElse_total: "\<exists>n. b = Inr n \<Longrightarrow> \<exists>n. orElse a b = Inr n"
  by (cases a) (auto simp: orElse_def)

lemma parseItem_total:
  assumes "item \<noteq> JNull" "item \<noteq> JUndefined"
  shows "parseItem pf item = Inr None \<or>
    (\<exists>r. parseItem pf item = Inr (Some r) \<and> modelName r \<noteq> [] \<and> creator r \<noteq> [])"
proof -
  note gs = getString_total [OF assms] and gn = getNumber_total [OF assms, of pf]
  obtain s1 where s1: "getString item [''model_name'', ''name'', ''model'', ''modelName'', ''display_name''] = Inr s1"
    using gs by blast
  obtain s2 where s2: "getString item [''creator'', ''provider'', ''organization''] = Inr s2"
    using gs by blast
  obtain n1 where n1: "orElse (getNestedNumber pf item ''evaluations.artificial_analysis_intelligence_index'')
              (getNumber pf item [''intelligence_index'', ''intelligenceIndex'']) = Inr n1"
    using orElse_total [OF gn] by blast
  obtain n2 where n2: "orElse (getNestedNumber pf item ''evaluations.artificial_analysis_coding_index'')
              (getNumber pf item [''coding_index'', ''codingIndex'']) = Inr n2"
    using orElse_total [OF gn] by blast
  obtain n3 where n3: "orElse (getNestedNumber pf item ''evaluations.artificial_analysis_math_index'')
              (getNumber pf item [''math_index'', ''mathIndex'']) = Inr n3"
    using orElse_total [OF gn] by blast
  obtain n4 where n4: "getNumber pf item [''median_output_tokens_per_second'', ''output_speed'', ''outputSpeed''] = Inr n4"
    using gn by blast
  obtain n5 where n5: "getNumber pf item [''median_time_to_first_token_seconds'', ''latency'', ''ttft''] = Inr n5"
    using gn by blast
  obtain n6 where n6: "getNumber pf item [''price_input'', ''priceInput'', ''input_price''] = Inr n6"
    using gn by blast
  obtain n7 where n7: "getNumber pf item [''price_output'', ''priceOutput'', ''output_price''] = Inr n7"
    using gn by blast
  show ?thesis
    unfolding parseItem_def s1 s2 n1 n2 n3 n4 n5 n6 n7
    by (simp add: bindE_def Let_def)
qed

lemma parseItem_throws_iff:
  "(\<exists>e. parseItem pf item = Inl e) \<longleftrightarrow> item = JNull \<or> item = JUndefined"
proof
  assume t: "\<exists>e. parseItem pf item = Inl e"
  show "item = JNull \<or> item = JUndefined"
  proof (rule ccontr)
    assume "\<not> (item = JNull \<or> item = JUndefined)"
    then have "item \<noteq> JNull" "item \<noteq> JUndefined" by simp_all
    from parseItem_total [OF this, of pf] t show False by auto
  qed
next
  assume "item = JNull \<or> item = JUndefined"
  then show "\<exists>e. parseItem pf item = Inl e"
    using parseItem_null [of pf] parseItem_undefined [of pf] by auto
qed

lemma mapE_results:
  "mapE f xs = Inr ys \<Longrightarrow> y \<in> set ys \<Longrightarrow> \<exists>x\<in>set xs. f x = Inr y"
  by (induction xs arbitrary: ys) (auto simp: bindE_def split: sum.splits)

lemma mapE_length: "mapE f xs = Inr ys \<Longrightarrow> length ys = length xs"
  by (induction xs arbitrary: ys) (auto simp: bindE_def split: sum.splits)

lemma nonNull_set: "r \<in> set (nonNull ys) \<longleftrightarrow> Some r \<in> set ys"
  by (induction ys rule: nonNull.induct) auto

text \<open>
  \<^verbatim>\<open>parseBenchmarks\<close> throws exactly when the list it extracts holds \<^verbatim>\<open>null\<close> or
  \<^verbatim>\<open>undefined\<close>; on every other input it returns.
\<close>

theorem parseBenchmarks_throws_iff:
  "parseBenchmarks pf raw = Inl TypeError \<longleftrightarrow>
     (\<exists>item\<in>set (extractModelsArray raw). item = JNull \<or> item = JUndefined)"
proof -
  have "(\<exists>e. mapE (parseItem pf) (extractModelsArray raw) = Inl e) \<longleftrightarrow>
      (\<exists>item\<in>set (extractModelsArray raw). item = JNull \<or> item = JUndefined)"
    unfolding mapE_throws parseItem_throws_iff ..
  moreover have "parseBenchmarks pf raw = Inl TypeError \<longleftrightarrow>
      (\<exists>e. mapE (parseItem pf) (extractModelsArray raw) = Inl e)"
    by (cases "mapE (parseItem pf) (extractModelsArray raw)")
       (auto simp: parseBenchmarks_def bindE_def Let_def intro: error.exhaust)
  ultimately show ?thesis by simp
qed

text \<open>
  When \<^verbatim>\<open>parseBenchmarks\<close> returns, every record of the result has a non-empty
  \<open>modelName\<close> and a non-empty \<open>creator\<close>.
\<close>

theorem parseBenchmarks_records_complete:
  assumes "parseBenchmarks pf raw = Inr records" and "r \<in> set records"
  shows "modelName r \<noteq> [] \<and> creator r \<noteq> []"
proof (cases "extractModelsArray raw = []")
  case True
  with assms show ?thesis by (simp add: parseBenchmarks_def)
next
  case False
  with assms(1) obtain ys where m: "mapE (parseItem pf) (extractModelsArray raw) = Inr ys"
    and rs: "records = nonNull ys"
    by (cases "mapE (parseItem pf) (extractModelsArray raw)")
       (auto simp: parseBenchmarks_def bindE_def Let_def)
  from assms(2) rs have "Some r \<in> set ys" by (simp add: nonNull_set)
  with m obtain item where "parseItem pf item = Inr (Some r)"
    using mapE_results by fastforce
  moreover have "item \<noteq> JNull" "item \<noteq> JUndefined"
    using calculation parseItem_null [of pf] parseItem_undefined [of pf] by auto
  ultimately show ?thesis using parseItem_total [of item pf] by auto
qed


text \<open>The defining equations that evaluate the parser on a literal.\<close>

lemmas parse_ev = parseBenchmarks_def extractModelsArray_def parseItem_def getString_def
  getNumber_def getNestedString_def getNestedNumber_def orElse_def objGet_def bindE_def
  jsSplit_def Let_def

text \<open>
  The theorem at a list of two items: the first has a name and a creator and is kept, the
  second has no creator and is dropped.
\<close>

theorem parseBenchmarks_records_complete_witness:
  "parseBenchmarks (\<lambda>s. None :: rat option)
     (JArr [JObj [(''name'', JStr ''GPT-4o''), (''creator'', JStr ''OpenAI'')],
            JObj [(''name'', JStr ''Orphan'')]])
     = Inr [\<lparr>modelName = ''GPT-4o'', creator = ''OpenAI'', intelligenceIndex = None,
              codingIndex = None, mathIndex = None, outputSpeed = None, latency = None,
              priceInput = None, priceOutput = None\<rparr>] \<and>
   modelName \<lparr>modelName = ''GPT-4o'', creator = ''OpenAI'', intelligenceIndex = None :: rat option,
              codingIndex = None, mathIndex = None, outputSpeed = None, latency = None,
              priceInput = None, priceOutput = None\<rparr> \<noteq> [] \<and>
   creator \<lparr>modelName = ''GPT-4o'', creator = ''OpenAI'', intelligenceIndex = None :: rat option,
              codingIndex = None, mathIndex = None, outputSpeed = None, latency = None,
              priceInput = None, priceOutput = None\<rparr> \<noteq> []"
proof -
  define r :: "rat ModelBenchmark" where
    "r = \<lparr>modelName = ''GPT-4o'', creator = ''OpenAI'', intelligenceIndex = None,
              codingIndex = None, mathIndex = None, outputSpeed = None, latency = None,
              priceInput = None, priceOutput = None\<rparr>"
  define raw :: "rat json" where
    "raw = JArr [JObj [(''name'', JStr ''GPT-4o''), (''creator'', JStr ''OpenAI'')],
            JObj [(''name'', JStr ''Orphan'')]]"
  have p: "parseBenchmarks (\<lambda>s. None) raw = Inr [r]"
    unfolding raw_def r_def by (simp add: parse_ev)
  have m: "r \<in> set [r]" by simp
  from parseBenchmarks_records_complete [OF p m]
  have "modelName r \<noteq> []" "creator r \<noteq> []" by simp_all
  with p show ?thesis unfolding raw_def r_def by (intro conjI)
qed

text \<open>
  The lookup \<^verbatim>\<open>PROVIDER_MAP[providerSlug]\<close> on the slugs \<open>constructor\<close> and \<open>__proto__\<close>
  finds what the table object inherits, and \<^verbatim>\<open>extractProvider\<close> hands that back in place
  of a string.
\<close>

theorem extractProvider_inherited_property:
  "extractProvider ''constructor/model'' = ObjectConstructor \<and>
   extractProvider ''__proto__/model'' = ObjectPrototype"
  by (simp add: extractProvider_def providerMapGet_def PROVIDER_MAP_def str_ev)

end
